theory Spec2Isabelle
  imports Main "HOL-Library.AList"
begin

section \<open>Python values, exceptions and outcomes\<close>

text \<open>
  The chatbot framework of \<^verbatim>\<open>oxycsbot.py\<close> is dynamically typed: a value of the
  \<^verbatim>\<open>TAGS\<close> dictionary may be any object, and the framework tests its class with
  \<^verbatim>\<open>isinstance\<close>. The values that the framework distinguishes are modelled by
  \<open>pyval\<close>: strings, integers, \<^verbatim>\<open>None\<close>, lists and tuples.
\<close>

datatype pyval =
    PStr string
  | PInt int
  | PNone
  | PList "pyval list"
  | PTuple "pyval list"

text \<open>
  The exceptions that the framework raises or lets through. \<open>HookError\<close> stands for
  any exception raised by the body of a hook of a subclass.
\<close>

datatype py_error =
    AttributeError string
  | AssertionError string
  | TypeError
  | IndexError
  | KeyError string
  | ReError string
  | HookError string

text \<open>
  A call either returns a value or raises. The third outcome, \<open>Unmodelled\<close>, is not
  a behaviour of the program: it marks an input on which the model of the standard
  library's regular expressions below says nothing (a pattern outside the modelled
  syntax, or a character outside ASCII).
\<close>

datatype 'a outcome = Returned 'a | Raised py_error | Unmodelled

section \<open>Strings\<close>

definition backslash :: char where
  "backslash = CHR 0x5C"

definition newline :: char where
  "newline = CHR 0x0A"

definition is_ascii :: "char \<Rightarrow> bool" where
  "is_ascii c = ((of_char c :: nat) < 128)"

text \<open>\<^verbatim>\<open>str.lower\<close> on ASCII text: the letters A to Z get bit 5 set.\<close>

definition lower_char :: "char \<Rightarrow> char" where
  "lower_char c =
     (let n = (of_char c :: nat) in
      if 65 \<le> n \<and> n \<le> 90
      then (case c of Char b0 b1 b2 b3 b4 b5 b6 b7 \<Rightarrow> Char b0 b1 b2 b3 b4 True b6 b7)
      else c)"

definition lower :: "string \<Rightarrow> string" where
  "lower s = map lower_char s"

text \<open>The class \<^verbatim>\<open>\w\<close> on ASCII text: letters, digits and the underscore.\<close>

definition is_word :: "char \<Rightarrow> bool" where
  "is_word c =
     (let n = (of_char c :: nat) in
      (48 \<le> n \<and> n \<le> 57) \<or> (65 \<le> n \<and> n \<le> 90) \<or> (97 \<le> n \<and> n \<le> 122) \<or> n = 95)"

section \<open>The fragment of \<^verbatim>\<open>re\<close> that the matcher relies on\<close>

text \<open>
  \<^verbatim>\<open>_get_tags\<close> builds the pattern \<^verbatim>\<open>r'\b' + phrase.lower() + r'\b'\<close> and hands
  it to \<^verbatim>\<open>re.search\<close>; the phrase is not escaped, so its characters are read as
  regular-expression syntax. The model covers literal characters, the dot, the
  assertion \<^verbatim>\<open>\b\<close> and the greedy repetitions \<^verbatim>\<open>?\<close>, \<^verbatim>\<open>*\<close> and \<^verbatim>\<open>+\<close> of a single
  character; everything else (classes, groups, alternation, anchors, braces, other
  escapes, lazy and possessive repetition) is \<open>Unmodelled\<close>.
\<close>

datatype atom = Lit char | AnyChar

datatype quant = Once | Optional | ZeroOrMore | OneOrMore

datatype item = At_Boundary | Rep quant atom

definition quant_of :: "char \<Rightarrow> quant" where
  "quant_of c = (if c = CHR ''?'' then Optional else if c = CHR ''*'' then ZeroOrMore else OneOrMore)"

definition repeat_chars :: "char list" where
  "repeat_chars = ''?*+''"

definition unmodelled_chars :: "char list" where
  "unmodelled_chars = ''^$|()[]{}''"

text \<open>
  The parser reads the pattern from left to right, as \<^verbatim>\<open>sre_parse\<close> does, and stops
  at the first error: a repetition with nothing before it, or right after \<^verbatim>\<open>\b\<close>, is
  ``nothing to repeat''; a repetition of a repetition is ``multiple repeat''.
\<close>

fun sre_parse :: "item list \<Rightarrow> string \<Rightarrow> item list outcome" where
  "sre_parse acc [] = Returned acc"
| "sre_parse acc (c # cs) =
     (if \<not> is_ascii c then Unmodelled
      else if c = backslash then
        (case cs of
           [] \<Rightarrow> Raised (ReError ''bad escape (end of pattern)'')
         | d # ds \<Rightarrow> if d = CHR ''b'' then sre_parse (acc @ [At_Boundary]) ds else Unmodelled)
      else if c \<in> set repeat_chars then
        (if acc = [] then Raised (ReError ''nothing to repeat'')
         else (case last acc of
                 At_Boundary \<Rightarrow> Raised (ReError ''nothing to repeat'')
               | Rep Once a \<Rightarrow>
                   (if cs \<noteq> [] \<and> (hd cs = CHR ''?'' \<or> hd cs = CHR ''+'') then Unmodelled
                    else sre_parse (butlast acc @ [Rep (quant_of c) a]) cs)
               | Rep _ a \<Rightarrow> Raised (ReError ''multiple repeat'')))
      else if c \<in> set unmodelled_chars then Unmodelled
      else if c = CHR ''.'' then sre_parse (acc @ [Rep Once AnyChar]) cs
      else sre_parse (acc @ [Rep Once (Lit c)]) cs)"

fun atom_ok :: "atom \<Rightarrow> char \<Rightarrow> bool" where
  "atom_ok (Lit a) c = (a = c)"
| "atom_ok AnyChar c = (c \<noteq> newline)"

text \<open>
  \<^verbatim>\<open>\b\<close> holds between a word character and a non-word character, where the two
  ends of the text count as non-word.
\<close>

definition word_before :: "char option \<Rightarrow> bool" where
  "word_before prev = (case prev of None \<Rightarrow> False | Some c \<Rightarrow> is_word c)"

definition word_after :: "string \<Rightarrow> bool" where
  "word_after s = (case s of [] \<Rightarrow> False | c # cs \<Rightarrow> is_word c)"

definition at_boundary :: "char option \<Rightarrow> string \<Rightarrow> bool" where
  "at_boundary prev s = (word_before prev \<noteq> word_after s)"

text \<open>
  \<open>sre_match p prev s\<close>: the pattern matches at the start of \<open>s\<close>, where \<open>prev\<close> is
  the character before that position. Repetitions try the longer match first.
\<close>

fun sre_match :: "item list \<Rightarrow> char option \<Rightarrow> string \<Rightarrow> bool" where
  "sre_match [] prev s = True"
| "sre_match (At_Boundary # r) prev s = (at_boundary prev s \<and> sre_match r prev s)"
| "sre_match (Rep Once a # r) prev [] = False"
| "sre_match (Rep Once a # r) prev (c # cs) = (atom_ok a c \<and> sre_match r (Some c) cs)"
| "sre_match (Rep Optional a # r) prev [] = sre_match r prev []"
| "sre_match (Rep Optional a # r) prev (c # cs) =
     ((atom_ok a c \<and> sre_match r (Some c) cs) \<or> sre_match r prev (c # cs))"
| "sre_match (Rep ZeroOrMore a # r) prev [] = sre_match r prev []"
| "sre_match (Rep ZeroOrMore a # r) prev (c # cs) =
     ((atom_ok a c \<and> sre_match (Rep ZeroOrMore a # r) (Some c) cs) \<or> sre_match r prev (c # cs))"
| "sre_match (Rep OneOrMore a # r) prev [] = False"
| "sre_match (Rep OneOrMore a # r) prev (c # cs) =
     (atom_ok a c \<and> sre_match (Rep ZeroOrMore a # r) (Some c) cs)"

text \<open>\<^verbatim>\<open>re.search\<close> tries every start position, the end of the text included.\<close>

fun sre_search :: "item list \<Rightarrow> char option \<Rightarrow> string \<Rightarrow> bool" where
  "sre_search p prev [] = sre_match p prev []"
| "sre_search p prev (c # cs) = (sre_match p prev (c # cs) \<or> sre_search p (Some c) cs)"

text \<open>
  \<^verbatim>\<open>re.search(pattern, string)\<close> in a condition: whether there is a match. The
  pattern is compiled first, so an error of the pattern is raised whatever the text.
\<close>

definition re_search :: "string \<Rightarrow> string \<Rightarrow> bool outcome" where
  "re_search pattern s =
     (case sre_parse [] pattern of
        Returned p \<Rightarrow> if list_all is_ascii s then Returned (sre_search p None s) else Unmodelled
      | Raised e \<Rightarrow> Raised e
      | Unmodelled \<Rightarrow> Unmodelled)"

section \<open>The matcher: \<^verbatim>\<open>_get_tags\<close>\<close>

text \<open>
  A \<^verbatim>\<open>Counter\<close> is a dictionary from keys to counts. \<^verbatim>\<open>Counter.update\<close> with an
  iterable adds one to the count of each element in turn (an absent key counts as
  0); an element must be hashable, which a list is not. With \<^verbatim>\<open>None\<close> it does
  nothing, a string is iterated character by character, and an integer is not
  iterable.
\<close>

type_synonym counter = "pyval \<rightharpoonup> nat"

fun hashable :: "pyval \<Rightarrow> bool" where
  "hashable (PList xs) = False"
| "hashable (PTuple xs) = list_all hashable xs"
| "hashable v = True"

text \<open>\<^verbatim>\<open>counter.get(key, 0)\<close>.\<close>

definition count_of :: "counter \<Rightarrow> pyval \<Rightarrow> nat" where
  "count_of cnt k = (case cnt k of None \<Rightarrow> 0 | Some n \<Rightarrow> n)"

fun count_elements :: "counter \<Rightarrow> pyval list \<Rightarrow> counter outcome" where
  "count_elements cnt [] = Returned cnt"
| "count_elements cnt (x # xs) =
     (if hashable x
      then count_elements (cnt(x \<mapsto> count_of cnt x + 1)) xs
      else Raised TypeError)"

fun counter_update :: "counter \<Rightarrow> pyval \<Rightarrow> counter outcome" where
  "counter_update cnt (PList xs) = count_elements cnt xs"
| "counter_update cnt (PTuple xs) = count_elements cnt xs"
| "counter_update cnt (PStr s) = count_elements cnt (map (\<lambda>ch. PStr [ch]) s)"
| "counter_update cnt PNone = Returned cnt"
| "counter_update cnt (PInt i) = Raised TypeError"

text \<open>The pattern \<^verbatim>\<open>r'\b' + phrase.lower() + r'\b'\<close>.\<close>

definition phrase_pattern :: "string \<Rightarrow> string" where
  "phrase_pattern phrase = [backslash, CHR ''b''] @ lower phrase @ [backslash, CHR ''b'']"

text \<open>
  The loop over \<^verbatim>\<open>self.TAGS.items()\<close>, in the order of the dictionary. \<open>msg\<close> is the
  lower-cased message. An exception in one entry ends the loop.
\<close>

fun get_tags_loop :: "string \<Rightarrow> counter \<Rightarrow> (string \<times> pyval) list \<Rightarrow> counter outcome" where
  "get_tags_loop msg cnt [] = Returned cnt"
| "get_tags_loop msg cnt ((phrase, tagv) # rest) =
     (case re_search (phrase_pattern phrase) msg of
        Returned found \<Rightarrow>
          (if found
           then (case counter_update cnt tagv of
                   Returned cnt' \<Rightarrow> get_tags_loop msg cnt' rest
                 | Raised e \<Rightarrow> Raised e
                 | Unmodelled \<Rightarrow> Unmodelled)
           else get_tags_loop msg cnt rest)
      | Raised e \<Rightarrow> Raised e
      | Unmodelled \<Rightarrow> Unmodelled)"

definition get_tags :: "(string \<times> pyval) list \<Rightarrow> string \<Rightarrow> counter outcome" where
  "get_tags tbl message = get_tags_loop (lower message) Map.empty tbl"

section \<open>The engine: \<^verbatim>\<open>class ChatBot\<close>\<close>

text \<open>
  The attributes of a \<^verbatim>\<open>ChatBot\<close> object. \<^verbatim>\<open>STATES\<close> and \<^verbatim>\<open>TAGS\<close> are class
  attributes read through \<^verbatim>\<open>self\<close>; a dictionary is an association list with
  distinct keys in insertion order.
\<close>

record engine =
  STATES :: "string list"
  TAGS :: "(string \<times> pyval) list"
  default_state :: string
  state :: string
  tags :: "(string \<times> pyval) list"

text \<open>
  The methods that a subclass defines are found by name with \<^verbatim>\<open>getattr\<close>. A
  method may change the object and may raise, so it maps the object to an outcome
  and the object it leaves behind. \<open>Method0\<close> takes no argument besides
  \<^verbatim>\<open>self\<close>, \<open>Method2\<close> takes the message and the tag counts, \<open>Data\<close> is an
  attribute that cannot be called.
\<close>

datatype 's attr =
    Method0 "'s \<Rightarrow> pyval outcome \<times> 's"
  | Method2 "string \<Rightarrow> counter \<Rightarrow> 's \<Rightarrow> pyval outcome \<times> 's"
  | Data pyval

type_synonym 's attrs = "string \<Rightarrow> 's attr option"

fun call0 :: "'s attr \<Rightarrow> 's \<Rightarrow> pyval outcome \<times> 's" where
  "call0 (Method0 f) s = f s"
| "call0 (Method2 f) s = (Raised TypeError, s)"
| "call0 (Data v) s = (Raised TypeError, s)"

fun call2 :: "'s attr \<Rightarrow> string \<Rightarrow> counter \<Rightarrow> 's \<Rightarrow> pyval outcome \<times> 's" where
  "call2 (Method2 f) message cnt s = f message cnt s"
| "call2 (Method0 f) message cnt s = (Raised TypeError, s)"
| "call2 (Data v) message cnt s = (Raised TypeError, s)"

text \<open>\<^verbatim>\<open>' '.join(parts)\<close>.\<close>

fun join_space :: "string list \<Rightarrow> string" where
  "join_space [] = []"
| "join_space [x] = x"
| "join_space (x # y # ys) = x @ '' '' @ join_space (y # ys)"

subsection \<open>Construction\<close>

definition default_state_warning :: "string \<Rightarrow> string \<Rightarrow> string" where
  "default_state_warning d first =
     join_space [''WARNING:'',
                 ''The default state '' @ d @ '' is listed as a state.'',
                 ''Perhaps you mean '' @ first @ ''?'']"

definition missing_hook_warning :: "string \<Rightarrow> string \<Rightarrow> string" where
  \<open>missing_hook_warning st prefix =
     join_space [''WARNING:'',
                 ''State "'' @ st @ ''" is defined'',
                 ''but has no response function self.'' @ prefix @ ''_'' @ st]\<close>

definition prefixes_of :: "string \<Rightarrow> string \<Rightarrow> string list" where
  "prefixes_of d st = (if st \<noteq> d then [''on_enter''] else []) @ [''respond_from'']"

text \<open>\<^verbatim>\<open>_check_states\<close>: the lines it prints.\<close>

definition check_states :: "'s attrs \<Rightarrow> string list \<Rightarrow> string \<Rightarrow> string list" where
  "check_states attrs sts d =
     concat (map (\<lambda>st.
       concat (map (\<lambda>prefix.
         if attrs (prefix @ ''_'' @ st) = None then [missing_hook_warning st prefix] else [])
         (prefixes_of d st))) sts)"

fun is_str :: "pyval \<Rightarrow> bool" where
  "is_str (PStr s) = True"
| "is_str v = False"

fun is_tuple_or_list :: "pyval \<Rightarrow> bool" where
  "is_tuple_or_list (PList xs) = True"
| "is_tuple_or_list (PTuple xs) = True"
| "is_tuple_or_list v = False"

fun class_name :: "pyval \<Rightarrow> string" where
  "class_name (PStr s) = ''str''"
| "class_name (PInt i) = ''int''"
| "class_name PNone = ''NoneType''"
| "class_name (PList xs) = ''list''"
| "class_name (PTuple xs) = ''tuple''"

definition tags_error :: "pyval \<Rightarrow> py_error" where
  "tags_error v =
     AssertionError (join_space [''ERROR:'',
                                 ''Expected tags for {phrase} to be str or List[str]'',
                                 ''but got '' @ class_name v])"

text \<open>
  \<^verbatim>\<open>_check_tags\<close>: the loop over the keys of \<^verbatim>\<open>self.TAGS\<close>. It stores into the
  dictionary as it goes, so the result is the dictionary as the loop leaves it,
  with the \<^verbatim>\<open>AssertionError\<close> that stopped it, if any.
\<close>

fun check_tags_loop :: "string list \<Rightarrow> (string \<times> pyval) list \<Rightarrow> (string \<times> pyval) list \<times> py_error option" where
  "check_tags_loop [] tbl = (tbl, None)"
| "check_tags_loop (phrase # rest) tbl =
     (case map_of tbl phrase of
        None \<Rightarrow> (tbl, Some (KeyError phrase))
      | Some tagv \<Rightarrow>
          (let tbl' = (if is_str tagv then AList.update phrase (PList [tagv]) tbl else tbl) in
           case map_of tbl' phrase of
             None \<Rightarrow> (tbl', Some (KeyError phrase))
           | Some tagv' \<Rightarrow>
               if is_tuple_or_list tagv' then check_tags_loop rest tbl'
               else (tbl', Some (tags_error tagv'))))"

definition check_tags :: "(string \<times> pyval) list \<Rightarrow> (string \<times> pyval) list \<times> py_error option" where
  "check_tags tbl = check_tags_loop (map fst tbl) tbl"

text \<open>
  \<^verbatim>\<open>ChatBot.__init__\<close>: the outcome and the lines printed. \<^verbatim>\<open>self.STATES[0]\<close> is
  evaluated only when the default state is not declared, and raises
  \<^verbatim>\<open>IndexError\<close> on an empty list.
\<close>

definition init_warning :: "string list \<Rightarrow> string \<Rightarrow> string list outcome" where
  "init_warning sts d =
     (if d \<notin> set sts
      then (case sts of
              [] \<Rightarrow> Raised IndexError
            | first # others \<Rightarrow> Returned [default_state_warning d first])
      else Returned [])"

definition init :: "engine attrs \<Rightarrow> string list \<Rightarrow> (string \<times> pyval) list \<Rightarrow> string \<Rightarrow> engine outcome \<times> string list" where
  "init attrs sts tbl d =
     (case init_warning sts d of
        Raised e \<Rightarrow> (Raised e, [])
      | Unmodelled \<Rightarrow> (Unmodelled, [])
      | Returned out1 \<Rightarrow>
          (let out2 = check_states attrs sts d
           in case check_tags tbl of
                (tbl', Some e) \<Rightarrow> (Raised e, out1 @ out2)
              | (tbl', None) \<Rightarrow>
                  (Returned \<lparr>STATES = sts, TAGS = tbl', default_state = d, state = d, tags = []\<rparr>,
                   out1 @ out2)))"

subsection \<open>Transitions and dispatch\<close>

definition not_defined_error :: "string \<Rightarrow> py_error" where
  \<open>not_defined_error target = AssertionError (''ERROR: state "'' @ target @ '' is not defined'')\<close>

definition default_target_error :: "string \<Rightarrow> py_error" where
  "default_target_error d =
     AssertionError (join_space [''WARNING:'',
                                 ''do not call `go_to_state` on the default state '' @ d @ '';'',
                                 ''use `finish` instead''])"

text \<open>\<^verbatim>\<open>getattr(self, name)\<close> on the methods of the subclass.\<close>

definition getattr :: "'s attrs \<Rightarrow> string \<Rightarrow> 's attr outcome" where
  "getattr attrs name = (case attrs name of None \<Rightarrow> Raised (AttributeError name) | Some a \<Rightarrow> Returned a)"

definition go_to_state :: "engine attrs \<Rightarrow> engine \<Rightarrow> string \<Rightarrow> pyval outcome \<times> engine" where
  "go_to_state attrs self target =
     (if target \<notin> set (STATES self) then (Raised (not_defined_error target), self)
      else if target = default_state self then (Raised (default_target_error (default_state self)), self)
      else (case getattr attrs (''on_enter_'' @ target) of
              Returned on_enter_method \<Rightarrow>
                (case call0 on_enter_method self of
                   (Returned response, self') \<Rightarrow> (Returned response, self'\<lparr>state := target\<rparr>)
                 | (Raised e, self') \<Rightarrow> (Raised e, self')
                 | (Unmodelled, self') \<Rightarrow> (Unmodelled, self'))
            | Raised e \<Rightarrow> (Raised e, self)
            | Unmodelled \<Rightarrow> (Unmodelled, self)))"

definition finish :: "engine attrs \<Rightarrow> engine \<Rightarrow> string \<Rightarrow> pyval outcome \<times> engine" where
  "finish attrs self manner =
     (case getattr attrs (''finish_'' @ manner) of
        Returned finish_method \<Rightarrow>
          (case call0 finish_method self of
             (Returned response, self') \<Rightarrow> (Returned response, self'\<lparr>state := default_state self'\<rparr>)
           | (Raised e, self') \<Rightarrow> (Raised e, self')
           | (Unmodelled, self') \<Rightarrow> (Unmodelled, self'))
      | Raised e \<Rightarrow> (Raised e, self)
      | Unmodelled \<Rightarrow> (Unmodelled, self))"

definition respond :: "engine attrs \<Rightarrow> engine \<Rightarrow> string \<Rightarrow> pyval outcome \<times> engine" where
  "respond attrs self message =
     (case getattr attrs (''respond_from_'' @ state self) of
        Returned respond_method \<Rightarrow>
          (case get_tags (TAGS self) message of
             Returned cnt \<Rightarrow> call2 respond_method message cnt self
           | Raised e \<Rightarrow> (Raised e, self)
           | Unmodelled \<Rightarrow> (Unmodelled, self))
      | Raised e \<Rightarrow> (Raised e, self)
      | Unmodelled \<Rightarrow> (Unmodelled, self))"

section \<open>The dialogue script: \<^verbatim>\<open>class oxycsbot\<close>\<close>

text \<open>
  A dictionary display stores its items from left to right: a key that comes again
  keeps its place and takes the later value.
\<close>

definition dict_of :: "('k \<times> 'v) list \<Rightarrow> ('k \<times> 'v) list" where
  "dict_of items = foldl (\<lambda>d (k, v). AList.update k v d) [] items"

definition oxycsbot_STATES :: "string list" where
  "oxycsbot_STATES =
     [''waiting'', ''thoughts_1'', ''thoughts_2'', ''increase_reason_1'',
      ''increase_reason_2'', ''unknown_benefit_1'', ''unknown_benefit_2'']"

definition oxycsbot_TAGS :: "(string \<times> pyval) list" where
  "oxycsbot_TAGS = dict_of
     [(''Hello'', PStr ''hello''),
      (''hey'', PStr ''hello''),
      (''hi'', PStr ''hello''),
      (''what'sup'', PStr ''hello''),
      (''whats up'', PStr ''hello''),
      (''whats up?'', PStr ''hello''),
      (''hello'', PStr ''hello''),
      (''thanks'', PStr ''thanks''),
      (''okay'', PStr ''success''),
      (''bye'', PStr ''success''),
      (''yes'', PStr ''yes''),
      (''yep'', PStr ''yes''),
      (''no'', PStr ''no''),
      (''nope'', PStr ''no''),
      (''ok'', PStr ''yes''),
      (''okay'', PStr ''yes''),
      (''sounds good'', PStr ''yes''),
      (''yes'', PStr ''yes''),
      (''all right'', PStr ''yes''),
      (''very well'', PStr ''yes''),
      (''of course'', PStr ''yes''),
      (''by all means'', PStr ''yes''),
      (''sure'', PStr ''yes''),
      (''certainly'', PStr ''yes''),
      (''absolutely'', PStr ''yes''),
      (''indeed'', PStr ''yes''),
      (''right'', PStr ''yes''),
      (''affirmative'', PStr ''yes''),
      (''agreed'', PStr ''yes''),
      (''no'', PStr ''no''),
      (''nope'', PStr ''no''),
      (''absolutely not'', PStr ''no''),
      (''most certainly not'', PStr ''no''),
      (''of course not'', PStr ''no''),
      (''under no circumstances'', PStr ''no''),
      (''by no means'', PStr ''no''),
      (''not at all'', PStr ''no''),
      (''negative'', PStr ''no''),
      (''never'', PStr ''no''),
      (''not really'', PStr ''no'')]"

text \<open>
  The methods call \<^verbatim>\<open>self.go_to_state\<close> and \<^verbatim>\<open>self.finish\<close>, which look the hooks
  up on the same object. The completion hooks call nothing, the entry hooks call
  \<^verbatim>\<open>finish\<close> only, and the response hooks call both, so the attributes are given
  in three layers; \<^verbatim>\<open>finish\<close> and \<^verbatim>\<open>go_to_state\<close> look up names of the lower layers
  only, on which the layers agree. The attribute \<^verbatim>\<open>benefits\<close> is set to
  \<^verbatim>\<open>None\<close> and never read; it is left out.
\<close>

definition finish_confused :: "engine \<Rightarrow> pyval outcome \<times> engine" where
  "finish_confused self =
     (Returned (PStr ''I am sorry I do not understand what you are saying. Could we please get back to the topic at hand?''), self)"

definition finish_hello :: "engine \<Rightarrow> pyval outcome \<times> engine" where
  "finish_hello self =
     (Returned (PStr ''I am sorry I do not understand. Can you please say hello''), self)"

definition finish_success :: "engine \<Rightarrow> pyval outcome \<times> engine" where
  "finish_success self = (Returned (PStr ''Great, thank you so much!''), self)"

definition finish_fail :: "engine \<Rightarrow> pyval outcome \<times> engine" where
  "finish_fail self =
     (Returned (PStr ''I am sorry, I still do not understand what you are trying to say. Maybe we can discuss this again at a later point.''), self)"

definition finish_reject :: "engine \<Rightarrow> pyval outcome \<times> engine" where
  "finish_reject self = (Returned (PStr ''Ok, I understand. Thank you for your time.''), self)"

definition oxycsbot_finish_attrs :: "engine attrs" where
  "oxycsbot_finish_attrs = map_of
     [(''finish_confused'', Method0 finish_confused),
      (''finish_hello'', Method0 finish_hello),
      (''finish_success'', Method0 finish_success),
      (''finish_fail'', Method0 finish_fail),
      (''finish_reject'', Method0 finish_reject)]"

definition on_enter_thoughts_1 :: "engine \<Rightarrow> pyval outcome \<times> engine" where
  "on_enter_thoughts_1 self =
     (Returned (PStr ''Hello boss, I would like to discuss increasing my salary. Can I discuss this with you?''), self)"

definition on_enter_increase_reason_1 :: "engine \<Rightarrow> pyval outcome \<times> engine" where
  "on_enter_increase_reason_1 self =
     (Returned (PStr ''I believe that I deserve an increase in salary because for the past year I have consistently submit top quality work benefitting the company image and stock value. So what do you think?''), self)"

definition on_enter_thoughts_2 :: "engine \<Rightarrow> pyval outcome \<times> engine" where
  "on_enter_thoughts_2 self =
     (Returned (PStr ''Ok, then can I please discuss more paid time off?''), self)"

definition on_enter_increase_reason_2 :: "engine \<Rightarrow> pyval outcome \<times> engine" where
  "on_enter_increase_reason_2 self =
     (Returned (PStr ''I believe I have worked without taking any paid time off for the past 6 months and produced top quality work consistently so I think a little break would be nice. What do you think about this?''), self)"

definition on_enter_unknown_benefit_1 :: "engine \<Rightarrow> pyval outcome \<times> engine" where
  "on_enter_unknown_benefit_1 self = finish oxycsbot_finish_attrs self ''confused''"

definition on_enter_unknown_benefit_2 :: "engine \<Rightarrow> pyval outcome \<times> engine" where
  "on_enter_unknown_benefit_2 self = finish oxycsbot_finish_attrs self ''confused''"

definition oxycsbot_enter_attrs :: "engine attrs" where
  "oxycsbot_enter_attrs = oxycsbot_finish_attrs ++ map_of
     [(''on_enter_thoughts_1'', Method0 on_enter_thoughts_1),
      (''on_enter_increase_reason_1'', Method0 on_enter_increase_reason_1),
      (''on_enter_thoughts_2'', Method0 on_enter_thoughts_2),
      (''on_enter_increase_reason_2'', Method0 on_enter_increase_reason_2),
      (''on_enter_unknown_benefit_1'', Method0 on_enter_unknown_benefit_1),
      (''on_enter_unknown_benefit_2'', Method0 on_enter_unknown_benefit_2)]"

text \<open>\<^verbatim>\<open>key in counter\<close>.\<close>

definition has_tag :: "string \<Rightarrow> counter \<Rightarrow> bool" where
  "has_tag t cnt = (cnt (PStr t) \<noteq> None)"

definition respond_from_waiting :: "string \<Rightarrow> counter \<Rightarrow> engine \<Rightarrow> pyval outcome \<times> engine" where
  "respond_from_waiting message cnt self =
     (if has_tag ''hello'' cnt then go_to_state oxycsbot_enter_attrs self ''thoughts_1''
      else finish oxycsbot_finish_attrs self ''hello'')"

definition respond_from_thoughts_1 :: "string \<Rightarrow> counter \<Rightarrow> engine \<Rightarrow> pyval outcome \<times> engine" where
  "respond_from_thoughts_1 message cnt self =
     (if has_tag ''yes'' cnt then go_to_state oxycsbot_enter_attrs self ''increase_reason_1''
      else if has_tag ''no'' cnt then go_to_state oxycsbot_enter_attrs self ''thoughts_2''
      else go_to_state oxycsbot_enter_attrs self ''unknown_benefit_1'')"

definition respond_from_increase_reason_1 :: "string \<Rightarrow> counter \<Rightarrow> engine \<Rightarrow> pyval outcome \<times> engine" where
  "respond_from_increase_reason_1 message cnt self =
     (if has_tag ''yes'' cnt then finish oxycsbot_finish_attrs self ''success''
      else if has_tag ''no'' cnt then go_to_state oxycsbot_enter_attrs self ''thoughts_2''
      else go_to_state oxycsbot_enter_attrs self ''unknown_benefit_1'')"

definition respond_from_thoughts_2 :: "string \<Rightarrow> counter \<Rightarrow> engine \<Rightarrow> pyval outcome \<times> engine" where
  "respond_from_thoughts_2 message cnt self =
     (if has_tag ''yes'' cnt then go_to_state oxycsbot_enter_attrs self ''increase_reason_2''
      else if has_tag ''no'' cnt then finish oxycsbot_finish_attrs self ''reject''
      else go_to_state oxycsbot_enter_attrs self ''unknown_benefit_2'')"

definition respond_from_increase_reason_2 :: "string \<Rightarrow> counter \<Rightarrow> engine \<Rightarrow> pyval outcome \<times> engine" where
  "respond_from_increase_reason_2 message cnt self =
     (if has_tag ''yes'' cnt then finish oxycsbot_finish_attrs self ''success''
      else if has_tag ''no'' cnt then finish oxycsbot_finish_attrs self ''reject''
      else go_to_state oxycsbot_enter_attrs self ''unknown_benefit_2'')"

definition respond_from_unknown_benefit_1 :: "string \<Rightarrow> counter \<Rightarrow> engine \<Rightarrow> pyval outcome \<times> engine" where
  "respond_from_unknown_benefit_1 message cnt self =
     (if has_tag ''yes'' cnt then go_to_state oxycsbot_enter_attrs self ''increase_reason_1''
      else finish oxycsbot_finish_attrs self ''fail'')"

definition respond_from_unknown_benefit_2 :: "string \<Rightarrow> counter \<Rightarrow> engine \<Rightarrow> pyval outcome \<times> engine" where
  "respond_from_unknown_benefit_2 message cnt self =
     (if has_tag ''yes'' cnt then go_to_state oxycsbot_enter_attrs self ''increase_reason_2''
      else finish oxycsbot_finish_attrs self ''fail'')"

definition oxycsbot_attrs :: "engine attrs" where
  "oxycsbot_attrs = oxycsbot_enter_attrs ++ map_of
     [(''respond_from_waiting'', Method2 respond_from_waiting),
      (''respond_from_thoughts_1'', Method2 respond_from_thoughts_1),
      (''respond_from_increase_reason_1'', Method2 respond_from_increase_reason_1),
      (''respond_from_thoughts_2'', Method2 respond_from_thoughts_2),
      (''respond_from_increase_reason_2'', Method2 respond_from_increase_reason_2),
      (''respond_from_unknown_benefit_1'', Method2 respond_from_unknown_benefit_1),
      (''respond_from_unknown_benefit_2'', Method2 respond_from_unknown_benefit_2)]"

text \<open>\<^verbatim>\<open>oxycsbot()\<close>: \<^verbatim>\<open>super().__init__(default_state='waiting')\<close>.\<close>

definition oxycsbot_init :: "engine outcome \<times> string list" where
  "oxycsbot_init = init oxycsbot_attrs oxycsbot_STATES oxycsbot_TAGS ''waiting''"

text \<open>The object that \<^verbatim>\<open>oxycsbot()\<close> builds, put in the state \<open>st\<close>.\<close>

definition oxycsbot_in :: "string \<Rightarrow> engine" where
  "oxycsbot_in st =
     \<lparr>STATES = oxycsbot_STATES, TAGS = fst (check_tags oxycsbot_TAGS),
      default_state = ''waiting'', state = st, tags = []\<rparr>"

text \<open>
  The dictionary that \<^verbatim>\<open>_check_tags\<close> leaves for this script: the later value of
  a repeated key is kept (\<^verbatim>\<open>'okay'\<close> is tagged \<^verbatim>\<open>'yes'\<close>) and every tag is wrapped
  in a list.
\<close>

definition oxycsbot_table :: "(string \<times> pyval) list" where
  "oxycsbot_table =
     [(''Hello'', PList [PStr ''hello'']),
      (''hey'', PList [PStr ''hello'']),
      (''hi'', PList [PStr ''hello'']),
      (''what'sup'', PList [PStr ''hello'']),
      (''whats up'', PList [PStr ''hello'']),
      (''whats up?'', PList [PStr ''hello'']),
      (''hello'', PList [PStr ''hello'']),
      (''thanks'', PList [PStr ''thanks'']),
      (''okay'', PList [PStr ''yes'']),
      (''bye'', PList [PStr ''success'']),
      (''yes'', PList [PStr ''yes'']),
      (''yep'', PList [PStr ''yes'']),
      (''no'', PList [PStr ''no'']),
      (''nope'', PList [PStr ''no'']),
      (''ok'', PList [PStr ''yes'']),
      (''sounds good'', PList [PStr ''yes'']),
      (''all right'', PList [PStr ''yes'']),
      (''very well'', PList [PStr ''yes'']),
      (''of course'', PList [PStr ''yes'']),
      (''by all means'', PList [PStr ''yes'']),
      (''sure'', PList [PStr ''yes'']),
      (''certainly'', PList [PStr ''yes'']),
      (''absolutely'', PList [PStr ''yes'']),
      (''indeed'', PList [PStr ''yes'']),
      (''right'', PList [PStr ''yes'']),
      (''affirmative'', PList [PStr ''yes'']),
      (''agreed'', PList [PStr ''yes'']),
      (''absolutely not'', PList [PStr ''no'']),
      (''most certainly not'', PList [PStr ''no'']),
      (''of course not'', PList [PStr ''no'']),
      (''under no circumstances'', PList [PStr ''no'']),
      (''by no means'', PList [PStr ''no'']),
      (''not at all'', PList [PStr ''no'']),
      (''negative'', PList [PStr ''no'']),
      (''never'', PList [PStr ''no'']),
      (''not really'', PList [PStr ''no''])]"

section \<open>A script whose entry hook makes a transition and then fails\<close>

text \<open>
  \<^verbatim>\<open>def finish_done(self): return 'done'\<close> and
  \<^verbatim>\<open>def on_enter_relay(self): self.finish('done'); return self.finish('missing')\<close>,
  on a bot with the states \<^verbatim>\<open>idle\<close> (the default), \<^verbatim>\<open>busy\<close> and \<^verbatim>\<open>relay\<close>.
  There is no \<^verbatim>\<open>finish_missing\<close> and no \<^verbatim>\<open>on_enter_busy\<close>.
\<close>

definition finish_done :: "engine \<Rightarrow> pyval outcome \<times> engine" where
  "finish_done self = (Returned (PStr ''done''), self)"

definition relay_finish_attrs :: "engine attrs" where
  "relay_finish_attrs = map_of [(''finish_done'', Method0 finish_done)]"

definition on_enter_relay :: "engine \<Rightarrow> pyval outcome \<times> engine" where
  "on_enter_relay self =
     (case finish relay_finish_attrs self ''done'' of
        (Returned r, self') \<Rightarrow> finish relay_finish_attrs self' ''missing''
      | (Raised e, self') \<Rightarrow> (Raised e, self')
      | (Unmodelled, self') \<Rightarrow> (Unmodelled, self'))"

definition relay_attrs :: "engine attrs" where
  "relay_attrs = relay_finish_attrs ++ map_of [(''on_enter_relay'', Method0 on_enter_relay)]"

definition relay_engine :: engine where
  "relay_engine =
     \<lparr>STATES = [''idle'', ''busy'', ''relay''], TAGS = [], default_state = ''idle'',
      state = ''busy'', tags = []\<rparr>"

section \<open>The matching that the specification words\<close>

text \<open>
  The specification asks for a phrase to count when it occurs in the message
  literally, spaces and punctuation included, with a word boundary at each of its
  two ends, letter case ignored. \<open>spec_phrase_matches\<close> states that, for comparison
  with \<open>re_search\<close> on \<open>phrase_pattern\<close>.
\<close>

definition last_char :: "char option \<Rightarrow> string \<Rightarrow> char option" where
  "last_char prev s = (if s = [] then prev else Some (last s))"

definition occurs_here :: "string \<Rightarrow> char option \<Rightarrow> string \<Rightarrow> bool" where
  "occurs_here phrase prev s =
     (at_boundary prev s \<and> take (length phrase) s = phrase
      \<and> at_boundary (last_char prev phrase) (drop (length phrase) s))"

fun occurs_from :: "string \<Rightarrow> char option \<Rightarrow> string \<Rightarrow> bool" where
  "occurs_from phrase prev [] = occurs_here phrase prev []"
| "occurs_from phrase prev (c # cs) =
     (occurs_here phrase prev (c # cs) \<or> occurs_from phrase (Some c) cs)"

definition spec_phrase_matches :: "string \<Rightarrow> string \<Rightarrow> bool" where
  "spec_phrase_matches phrase message = occurs_from (lower phrase) None (lower message)"

text \<open>The characters that \<open>sre_parse\<close> reads as themselves.\<close>

definition plain_char :: "char \<Rightarrow> bool" where
  "plain_char c =
     (is_ascii c \<and> c \<noteq> backslash \<and> c \<notin> set repeat_chars \<and> c \<notin> set unmodelled_chars
      \<and> c \<noteq> CHR ''.'')"

text \<open>What \<^verbatim>\<open>_check_tags\<close> does to one entry that it accepts.\<close>

definition normalize_entry :: "string \<times> pyval \<Rightarrow> string \<times> pyval" where
  "normalize_entry kv = (fst kv, if is_str (snd kv) then PList [snd kv] else snd kv)"

definition accepted :: "pyval \<Rightarrow> bool" where
  "accepted v = (is_str v \<or> is_tuple_or_list v)"




section \<open>Attribute lookup\<close>

lemma getattr_Some: "attrs name = Some a \<Longrightarrow> getattr attrs name = Returned a"
  by (simp add: getattr_def)

lemma getattr_None: "attrs name = None \<Longrightarrow> getattr attrs name = Raised (AttributeError name)"
  by (simp add: getattr_def)

lemmas oxycsbot_attrs_defs = oxycsbot_attrs_def oxycsbot_enter_attrs_def oxycsbot_finish_attrs_def
  map_add_def

lemma oxycsbot_finish_success:
  "oxycsbot_attrs (''finish_'' @ ''success'') = Some (Method0 finish_success)"
  by (simp add: oxycsbot_attrs_defs)

lemma oxycsbot_on_enter_thoughts_2:
  "oxycsbot_attrs (''on_enter_'' @ ''thoughts_2'') = Some (Method0 on_enter_thoughts_2)"
  by (simp add: oxycsbot_attrs_defs)

lemma oxycsbot_respond_hooks:
  "oxycsbot_attrs ''respond_from_waiting'' = Some (Method2 respond_from_waiting)"
  "oxycsbot_attrs ''respond_from_thoughts_1'' = Some (Method2 respond_from_thoughts_1)"
  by (simp_all add: oxycsbot_attrs_defs)

section \<open>Evaluating the script\<close>

lemmas matcher_defs = re_search_def phrase_pattern_def lower_def lower_char_def backslash_def
  newline_def is_ascii_def repeat_chars_def unmodelled_chars_def quant_of_def at_boundary_def
  word_before_def word_after_def is_word_def

lemma oxycsbot_TAGS_checked: "check_tags oxycsbot_TAGS = (oxycsbot_table, None)"
  by code_simp

lemma oxycsbot_in_simps:
  "state (oxycsbot_in st) = st" "TAGS (oxycsbot_in st) = oxycsbot_table"
  "default_state (oxycsbot_in st) = ''waiting''" "STATES (oxycsbot_in st) = oxycsbot_STATES"
  by (simp_all add: oxycsbot_in_def oxycsbot_TAGS_checked)

lemma oxycsbot_tags_hello_there:
  "get_tags oxycsbot_table ''Hello there'' = Returned [PStr ''hello'' \<mapsto> 2]"
proof -
  have "get_tags oxycsbot_table ''Hello there'' = Returned [PStr ''hello'' \<mapsto> Suc (Suc 0)]"
    unfolding oxycsbot_table_def get_tags_def by (simp add: matcher_defs count_of_def)
  then show ?thesis by (simp add: numeral_2_eq_2)
qed

lemma oxycsbot_tags_no_never:
  "get_tags oxycsbot_table ''No, never'' = Returned [PStr ''no'' \<mapsto> 2]"
proof -
  have "get_tags oxycsbot_table ''No, never'' = Returned [PStr ''no'' \<mapsto> Suc (Suc 0)]"
    unfolding oxycsbot_table_def get_tags_def by (simp add: matcher_defs count_of_def)
  then show ?thesis by (simp add: numeral_2_eq_2)
qed

lemma oxycsbot_go_thoughts_1:
  "go_to_state oxycsbot_enter_attrs (oxycsbot_in st) ''thoughts_1''
     = (Returned (PStr ''Hello boss, I would like to discuss increasing my salary. Can I discuss this with you?''),
        oxycsbot_in ''thoughts_1'')"
  by (simp add: go_to_state_def getattr_def oxycsbot_enter_attrs_def oxycsbot_finish_attrs_def
      map_add_def oxycsbot_in_def oxycsbot_STATES_def on_enter_thoughts_1_def)

lemma oxycsbot_go_thoughts_2:
  "go_to_state oxycsbot_enter_attrs (oxycsbot_in st) ''thoughts_2''
     = (Returned (PStr ''Ok, then can I please discuss more paid time off?''), oxycsbot_in ''thoughts_2'')"
  by (simp add: go_to_state_def getattr_def oxycsbot_enter_attrs_def oxycsbot_finish_attrs_def
      map_add_def oxycsbot_in_def oxycsbot_STATES_def on_enter_thoughts_2_def)

text \<open>The script is built without a warning and starts in \<^verbatim>\<open>waiting\<close>.\<close>

lemma oxycsbot_init_ok: "oxycsbot_init = (Returned (oxycsbot_in ''waiting''), [])"
  by (simp add: oxycsbot_init_def init_def init_warning_def check_states_def prefixes_of_def
      oxycsbot_STATES_def oxycsbot_TAGS_checked oxycsbot_in_def oxycsbot_attrs_defs)

section \<open>\<^verbatim>\<open>finish\<close>\<close>

text \<open>
  C1. When \<^verbatim>\<open>finish_<manner>\<close> is a method without arguments that returns
  \<open>response\<close> and leaves the object \<open>self'\<close>, \<^verbatim>\<open>finish(manner)\<close> returns \<open>response\<close> and
  leaves \<open>self'\<close> with its state set to its default state, whatever the state was
  before; when the hook does not touch \<^verbatim>\<open>default_state\<close>, that is the default state
  the call started with.
\<close>

theorem finish_runs_hook_then_resets:
  assumes "attrs (''finish_'' @ manner) = Some (Method0 hook)"
    and "hook self = (Returned response, self')"
  shows "finish attrs self manner = (Returned response, self'\<lparr>state := default_state self'\<rparr>)
       \<and> state (snd (finish attrs self manner)) = default_state (snd (finish attrs self manner))
       \<and> (default_state self' = default_state self \<longrightarrow>
            state (snd (finish attrs self manner)) = default_state self)"
  using assms by (simp add: finish_def getattr_Some)

theorem finish_runs_hook_then_resets_witness:
  "finish oxycsbot_attrs (oxycsbot_in ''increase_reason_2'') ''success''
     = (Returned (PStr ''Great, thank you so much!''), oxycsbot_in ''waiting'')
   \<and> state (snd (finish oxycsbot_attrs (oxycsbot_in ''increase_reason_2'') ''success'')) = ''waiting''"
  using finish_runs_hook_then_resets [where attrs = oxycsbot_attrs and manner = "''success''"
      and hook = finish_success and self = "oxycsbot_in ''increase_reason_2''"
      and response = "PStr ''Great, thank you so much!''" and self' = "oxycsbot_in ''increase_reason_2''"]
    oxycsbot_finish_success
  by (simp add: finish_success_def oxycsbot_in_def)

section \<open>\<^verbatim>\<open>go_to_state\<close>\<close>

text \<open>
  C2. A call of \<^verbatim>\<open>go_to_state\<close> whose target is the default state, or is not in
  \<^verbatim>\<open>STATES\<close>, raises an \<^verbatim>\<open>AssertionError\<close> and leaves the object, and so the current
  state, as it was, whatever the current state and the hooks are.
\<close>

theorem go_to_state_rejects:
  assumes "target = default_state self \<or> target \<notin> set (STATES self)"
  shows "go_to_state attrs self target =
           (Raised (if target \<in> set (STATES self) then default_target_error (default_state self)
                    else not_defined_error target), self)"
  using assms by (auto simp add: go_to_state_def)

theorem go_to_state_rejects_witness:
  "go_to_state oxycsbot_attrs (oxycsbot_in ''thoughts_1'') ''waiting''
     = (Raised (default_target_error ''waiting''), oxycsbot_in ''thoughts_1'')
   \<and> go_to_state oxycsbot_attrs (oxycsbot_in ''thoughts_1'') ''thoughts_3''
     = (Raised (not_defined_error ''thoughts_3''), oxycsbot_in ''thoughts_1'')"
  using go_to_state_rejects [of "''waiting''" "oxycsbot_in ''thoughts_1''" oxycsbot_attrs]
    go_to_state_rejects [of "''thoughts_3''" "oxycsbot_in ''thoughts_1''" oxycsbot_attrs]
  by (simp add: oxycsbot_in_def oxycsbot_STATES_def)

lemma go_to_state_state:
  "go_to_state attrs self0 target = (Returned r, self) \<Longrightarrow> state self = target"
  by (auto simp add: go_to_state_def split: if_splits outcome.splits prod.splits)

lemma finish_state_default:
  "finish attrs self manner = (Returned r, self') \<Longrightarrow> state self' = default_state self'"
  by (auto simp add: finish_def split: outcome.splits prod.splits)

lemma init_state_default:
  "init attrs sts tbl d = (Returned self, out) \<Longrightarrow> state self = d \<and> default_state self = d"
  by (auto simp add: init_def Let_def split: outcome.splits prod.splits option.splits)

lemma respond_object:
  "respond attrs self message = (r, self') \<Longrightarrow>
     self' = self \<or> (\<exists>m cnt. attrs (''respond_from_'' @ state self) = Some m
                     \<and> get_tags (TAGS self) message = Returned cnt
                     \<and> call2 m message cnt self = (r, self'))"
  by (auto simp add: respond_def getattr_def split: outcome.splits option.splits)

text \<open>
  C3. For a declared target other than the default state whose \<^verbatim>\<open>on_enter_<target>\<close>
  is a method without arguments that returns \<open>response\<close> and leaves the object
  \<open>self'\<close>, \<^verbatim>\<open>go_to_state(target)\<close> returns \<open>response\<close> and leaves \<open>self'\<close> with its
  state set to the target. No other method of the class assigns a state that is
  not the default state: \<^verbatim>\<open>finish\<close>, when it returns, and \<^verbatim>\<open>__init__\<close> leave the
  state equal to the default state, and \<^verbatim>\<open>respond\<close> leaves the object as it was or
  as the response hook left it.
\<close>

theorem go_to_state_enters:
  assumes "target \<in> set (STATES self)"
    and "target \<noteq> default_state self"
    and "attrs (''on_enter_'' @ target) = Some (Method0 hook)"
    and "hook self = (Returned response, self')"
  shows "go_to_state attrs self target = (Returned response, self'\<lparr>state := target\<rparr>)
       \<and> (\<forall>obj manner r obj'. finish attrs obj manner = (Returned r, obj') \<longrightarrow>
             state obj' = default_state obj')
       \<and> (\<forall>sts tbl d obj out. init attrs sts tbl d = (Returned obj, out) \<longrightarrow>
             state obj = default_state obj)
       \<and> (\<forall>obj message r obj'. respond attrs obj message = (r, obj') \<longrightarrow>
             obj' = obj \<or> (\<exists>m cnt. attrs (''respond_from_'' @ state obj) = Some m
                                \<and> get_tags (TAGS obj) message = Returned cnt
                                \<and> call2 m message cnt obj = (r, obj')))"
proof -
  have "go_to_state attrs self target = (Returned response, self'\<lparr>state := target\<rparr>)"
    using assms by (simp add: go_to_state_def getattr_Some)
  moreover have "\<forall>obj manner r obj'. finish attrs obj manner = (Returned r, obj') \<longrightarrow>
             state obj' = default_state obj'"
    using finish_state_default by blast
  moreover have "\<forall>sts tbl d obj out. init attrs sts tbl d = (Returned obj, out) \<longrightarrow>
             state obj = default_state obj"
    using init_state_default by metis
  moreover have "\<forall>obj message r obj'. respond attrs obj message = (r, obj') \<longrightarrow>
             obj' = obj \<or> (\<exists>m cnt. attrs (''respond_from_'' @ state obj) = Some m
                                \<and> get_tags (TAGS obj) message = Returned cnt
                                \<and> call2 m message cnt obj = (r, obj'))"
    using respond_object by blast
  ultimately show ?thesis by blast
qed

theorem go_to_state_enters_witness:
  "go_to_state oxycsbot_attrs (oxycsbot_in ''thoughts_1'') ''thoughts_2''
     = (Returned (PStr ''Ok, then can I please discuss more paid time off?''), oxycsbot_in ''thoughts_2'')"
  using go_to_state_enters [where attrs = oxycsbot_attrs and target = "''thoughts_2''"
      and hook = on_enter_thoughts_2 and self = "oxycsbot_in ''thoughts_1''"
      and response = "PStr ''Ok, then can I please discuss more paid time off?''"
      and self' = "oxycsbot_in ''thoughts_1''"]
    oxycsbot_on_enter_thoughts_2
  by (simp add: on_enter_thoughts_2_def oxycsbot_in_def oxycsbot_STATES_def)

section \<open>A hook that raises\<close>

lemma relay_run:
  "go_to_state relay_attrs relay_engine ''relay''
     = (Raised (AttributeError ''finish_missing''), relay_engine\<lparr>state := ''idle''\<rparr>)"
  by (simp add: go_to_state_def relay_engine_def relay_attrs_def relay_finish_attrs_def
      on_enter_relay_def finish_done_def finish_def getattr_def map_add_def)

text \<open>
  C9, as stated, fails: \<^verbatim>\<open>go_to_state('relay')\<close> is called in the state \<^verbatim>\<open>busy\<close>; the
  entry hook completes \<^verbatim>\<open>self.finish('done')\<close>, which sets the state to \<^verbatim>\<open>idle\<close>, and
  then raises in \<^verbatim>\<open>self.finish('missing')\<close>. The call raises and the state is
  \<^verbatim>\<open>idle\<close>, not \<^verbatim>\<open>busy\<close>.
\<close>

theorem raising_hook_counterexample:
  "fst (go_to_state relay_attrs relay_engine ''relay'') = Raised (AttributeError ''finish_missing'')
   \<and> state relay_engine = ''busy''
   \<and> state (snd (go_to_state relay_attrs relay_engine ''relay'')) = ''idle''"
  by (simp add: relay_run) (simp add: relay_engine_def)

text \<open>
  C9, amended. In \<^verbatim>\<open>go_to_state\<close> and in \<^verbatim>\<open>finish\<close> the hook is looked up and called
  before the state is assigned. When the lookup fails, the call raises
  \<^verbatim>\<open>AttributeError\<close> and the object is as it was. When the call of the hook raises,
  the same exception is raised and no assignment is made: the object is exactly as
  the hook left it.
\<close>

theorem no_assignment_when_hook_raises:
  "(target \<in> set (STATES self) \<and> target \<noteq> default_state self
      \<and> attrs (''on_enter_'' @ target) = None
     \<longrightarrow> go_to_state attrs self target = (Raised (AttributeError (''on_enter_'' @ target)), self))
   \<and> (attrs (''finish_'' @ manner) = None
     \<longrightarrow> finish attrs self manner = (Raised (AttributeError (''finish_'' @ manner)), self))
   \<and> (target \<in> set (STATES self) \<and> target \<noteq> default_state self
      \<and> attrs (''on_enter_'' @ target) = Some m \<and> call0 m self = (Raised e, self')
     \<longrightarrow> go_to_state attrs self target = (Raised e, self'))
   \<and> (attrs (''finish_'' @ manner) = Some m \<and> call0 m self = (Raised e, self')
     \<longrightarrow> finish attrs self manner = (Raised e, self'))"
  by (simp add: go_to_state_def finish_def getattr_def)

theorem no_assignment_when_hook_raises_witness:
  "go_to_state relay_attrs relay_engine ''busy''
     = (Raised (AttributeError ''on_enter_busy''), relay_engine)
   \<and> finish oxycsbot_attrs (oxycsbot_in ''thoughts_1'') ''thanks''
     = (Raised (AttributeError ''finish_thanks''), oxycsbot_in ''thoughts_1'')
   \<and> go_to_state relay_attrs relay_engine ''relay''
     = (Raised (AttributeError ''finish_missing''), relay_engine\<lparr>state := ''idle''\<rparr>)"
proof -
  have lookup: "relay_attrs ''on_enter_busy'' = None" "relay_attrs ''on_enter_relay'' = Some (Method0 on_enter_relay)"
    "oxycsbot_attrs ''finish_thanks'' = None"
    by (simp_all add: relay_attrs_def relay_finish_attrs_def map_add_def oxycsbot_attrs_defs)
  have declared: "STATES relay_engine = [''idle'', ''busy'', ''relay'']" "default_state relay_engine = ''idle''"
    by (simp_all add: relay_engine_def)
  have hook: "on_enter_relay relay_engine
      = (Raised (AttributeError ''finish_missing''), relay_engine\<lparr>state := ''idle''\<rparr>)"
    by (simp add: on_enter_relay_def finish_def getattr_def relay_finish_attrs_def finish_done_def
        relay_engine_def)
  show ?thesis
    using no_assignment_when_hook_raises [where attrs = relay_attrs and target = "''busy''"
        and self = relay_engine and manner = "''done''"]
      no_assignment_when_hook_raises [where attrs = oxycsbot_attrs and manner = "''thanks''"
        and self = "oxycsbot_in ''thoughts_1''" and target = "''waiting''"]
      no_assignment_when_hook_raises [where attrs = relay_attrs and target = "''relay''"
        and self = relay_engine and m = "Method0 on_enter_relay" and manner = "''done''"
        and e = "AttributeError ''finish_missing''" and self' = "relay_engine\<lparr>state := ''idle''\<rparr>"]
    by (simp add: lookup declared hook)
qed

section \<open>\<^verbatim>\<open>respond\<close>\<close>

lemma respond_matcher_raises:
  assumes "attrs (''respond_from_'' @ state self) = Some m"
    and "get_tags (TAGS self) message = Raised e"
  shows "respond attrs self message = (Raised e, self)"
  using assms by (simp add: respond_def getattr_Some)

text \<open>
  C4. When \<^verbatim>\<open>respond_from_<state>\<close> for the current state is a method of two
  arguments and the matcher returns the tag counts \<open>cnt\<close> for the message,
  \<^verbatim>\<open>respond(message)\<close> is the call of that hook with the message and \<open>cnt\<close>: its
  outcome and the object it leaves are the hook's. In particular, on the object
  that a successful \<^verbatim>\<open>go_to_state(s)\<close> leaves, \<^verbatim>\<open>respond\<close> calls
  \<^verbatim>\<open>respond_from_<s>\<close>.
\<close>

theorem respond_dispatches_on_current_state:
  "(attrs (''respond_from_'' @ state self) = Some (Method2 hook)
      \<and> get_tags (TAGS self) message = Returned cnt
     \<longrightarrow> respond attrs self message = hook message cnt self)
   \<and> (go_to_state attrs self0 s = (Returned r, self)
      \<and> attrs (''respond_from_'' @ s) = Some (Method2 hook)
      \<and> get_tags (TAGS self) message = Returned cnt
     \<longrightarrow> respond attrs self message = hook message cnt self)"
proof -
  have direct: "respond attrs self message = hook message cnt self"
    if "attrs (''respond_from_'' @ state self) = Some (Method2 hook)"
      and "get_tags (TAGS self) message = Returned cnt"
    using that by (simp add: respond_def getattr_Some)
  moreover have "respond attrs self message = hook message cnt self"
    if "go_to_state attrs self0 s = (Returned r, self)"
      and "attrs (''respond_from_'' @ s) = Some (Method2 hook)"
      and "get_tags (TAGS self) message = Returned cnt"
    using that direct go_to_state_state by blast
  ultimately show ?thesis by blast
qed

theorem respond_dispatches_on_current_state_witness:
  "respond oxycsbot_attrs (oxycsbot_in ''waiting'') ''Hello there''
     = (Returned (PStr ''Hello boss, I would like to discuss increasing my salary. Can I discuss this with you?''),
        oxycsbot_in ''thoughts_1'')
   \<and> respond oxycsbot_attrs (oxycsbot_in ''thoughts_1'') ''No, never''
     = respond_from_thoughts_1 ''No, never'' [PStr ''no'' \<mapsto> 2] (oxycsbot_in ''thoughts_1'')
   \<and> respond oxycsbot_attrs (oxycsbot_in ''thoughts_1'') ''No, never''
     = (Returned (PStr ''Ok, then can I please discuss more paid time off?''), oxycsbot_in ''thoughts_2'')"
proof -
  have first: "respond oxycsbot_attrs (oxycsbot_in ''waiting'') ''Hello there''
      = respond_from_waiting ''Hello there'' [PStr ''hello'' \<mapsto> 2] (oxycsbot_in ''waiting'')"
    using respond_dispatches_on_current_state [where attrs = oxycsbot_attrs
        and self = "oxycsbot_in ''waiting''" and hook = respond_from_waiting
        and message = "''Hello there''" and cnt = "[PStr ''hello'' \<mapsto> 2]",
        THEN conjunct1]
    by (simp add: oxycsbot_in_simps oxycsbot_respond_hooks oxycsbot_tags_hello_there)
  have entered: "respond_from_waiting ''Hello there'' [PStr ''hello'' \<mapsto> 2] (oxycsbot_in ''waiting'')
      = (Returned (PStr ''Hello boss, I would like to discuss increasing my salary. Can I discuss this with you?''),
         oxycsbot_in ''thoughts_1'')"
    by (simp add: respond_from_waiting_def has_tag_def oxycsbot_go_thoughts_1)
  have "oxycsbot_attrs ''on_enter_thoughts_1'' = oxycsbot_enter_attrs ''on_enter_thoughts_1''"
    by (simp add: oxycsbot_attrs_def map_add_def)
  then have "go_to_state oxycsbot_enter_attrs (oxycsbot_in ''waiting'') ''thoughts_1''
      = go_to_state oxycsbot_attrs (oxycsbot_in ''waiting'') ''thoughts_1''"
    by (simp add: go_to_state_def getattr_def)
  then have went: "go_to_state oxycsbot_attrs (oxycsbot_in ''waiting'') ''thoughts_1''
      = (Returned (PStr ''Hello boss, I would like to discuss increasing my salary. Can I discuss this with you?''),
         oxycsbot_in ''thoughts_1'')"
    by (simp add: oxycsbot_go_thoughts_1)
  have second: "respond oxycsbot_attrs (oxycsbot_in ''thoughts_1'') ''No, never''
      = respond_from_thoughts_1 ''No, never'' [PStr ''no'' \<mapsto> 2] (oxycsbot_in ''thoughts_1'')"
    using respond_dispatches_on_current_state [where attrs = oxycsbot_attrs
        and ?self0.0 = "oxycsbot_in ''waiting''" and s = "''thoughts_1''"
        and r = "PStr ''Hello boss, I would like to discuss increasing my salary. Can I discuss this with you?''"
        and self = "oxycsbot_in ''thoughts_1''" and hook = respond_from_thoughts_1
        and message = "''No, never''" and cnt = "[PStr ''no'' \<mapsto> 2]",
        THEN conjunct2] went
    by (simp add: oxycsbot_in_simps oxycsbot_respond_hooks oxycsbot_tags_no_never)
  have "respond_from_thoughts_1 ''No, never'' [PStr ''no'' \<mapsto> 2] (oxycsbot_in ''thoughts_1'')
      = (Returned (PStr ''Ok, then can I please discuss more paid time off?''), oxycsbot_in ''thoughts_2'')"
    by (simp add: respond_from_thoughts_1_def has_tag_def oxycsbot_go_thoughts_2)
  with first entered second show ?thesis by simp
qed

section \<open>The matcher on phrases without special characters\<close>

text \<open>
  On a phrase whose lower-cased characters are all read as themselves, the pattern is
  \<^verbatim>\<open>\b\<close>, the characters, \<^verbatim>\<open>\b\<close>, and \<^verbatim>\<open>re.search\<close> finds it exactly where the
  specification's literal matching does.
\<close>

lemma sre_parse_plain:
  "list_all plain_char q \<Longrightarrow>
     sre_parse acc (q @ rest) = sre_parse (acc @ map (\<lambda>c. Rep Once (Lit c)) q) rest"
proof (induction q arbitrary: acc)
  case Nil
  then show ?case by simp
next
  case (Cons c q)
  then have c: "plain_char c" and q: "list_all plain_char q" by simp_all
  from c show ?case using Cons.IH [OF q, of "acc @ [Rep Once (Lit c)]"]
    by (simp add: plain_char_def)
qed

lemma sre_parse_boundary:
  "sre_parse acc [backslash, CHR ''b''] = Returned (acc @ [At_Boundary])"
  by (simp add: backslash_def is_ascii_def)

lemma sre_parse_phrase_pattern:
  assumes "list_all plain_char (lower phrase)"
  shows "sre_parse [] (phrase_pattern phrase)
           = Returned (At_Boundary # map (\<lambda>c. Rep Once (Lit c)) (lower phrase) @ [At_Boundary])"
proof -
  have "sre_parse [] (phrase_pattern phrase)
          = sre_parse [At_Boundary] (lower phrase @ [backslash, CHR ''b''])"
    by (simp add: phrase_pattern_def backslash_def is_ascii_def)
  also have "\<dots> = sre_parse ([At_Boundary] @ map (\<lambda>c. Rep Once (Lit c)) (lower phrase)) [backslash, CHR ''b'']"
    using assms by (rule sre_parse_plain)
  also have "\<dots> = Returned (([At_Boundary] @ map (\<lambda>c. Rep Once (Lit c)) (lower phrase)) @ [At_Boundary])"
    by (rule sre_parse_boundary)
  finally show ?thesis by simp
qed

lemma sre_match_literals:
  "sre_match (map (\<lambda>c. Rep Once (Lit c)) q @ r) prev s
     = (take (length q) s = q \<and> sre_match r (last_char prev q) (drop (length q) s))"
proof (induction q arbitrary: prev s)
  case Nil
  then show ?case by (simp add: last_char_def)
next
  case (Cons c q)
  show ?case
  proof (cases s)
    case Nil
    then show ?thesis by simp
  next
    case (Cons d ds)
    have "last_char (Some d) q = last_char prev (d # q)"
      by (simp add: last_char_def)
    then show ?thesis using Cons Cons.IH [of "Some d" ds]
      by (auto simp add: last_char_def)
  qed
qed

lemma sre_match_phrase:
  "sre_match (At_Boundary # map (\<lambda>c. Rep Once (Lit c)) q @ [At_Boundary]) prev s
     = occurs_here q prev s"
  by (simp add: sre_match_literals occurs_here_def)

lemma sre_search_phrase:
  "sre_search (At_Boundary # map (\<lambda>c. Rep Once (Lit c)) q @ [At_Boundary]) prev s
     = occurs_from q prev s"
  by (induction s arbitrary: prev) (simp_all only: sre_search.simps occurs_from.simps sre_match_phrase)

lemma re_search_plain_phrase:
  assumes "list_all plain_char (lower phrase)" and "list_all is_ascii (lower message)"
  shows "re_search (phrase_pattern phrase) (lower message) = Returned (spec_phrase_matches phrase message)"
  using assms
  by (simp only: re_search_def sre_parse_phrase_pattern sre_search_phrase spec_phrase_matches_def
      outcome.case if_True)

text \<open>
  \<open>occurs_from\<close> is an occurrence of the phrase somewhere in the text, with a word
  boundary before its first and after its last character.
\<close>

lemma occurs_from_iff:
  "occurs_from q prev s \<longleftrightarrow>
     (\<exists>pre post. s = pre @ q @ post \<and> at_boundary (last_char prev pre) (q @ post)
        \<and> at_boundary (last_char (last_char prev pre) q) post)"
proof (induction s arbitrary: prev)
  case Nil
  then show ?case by (auto simp add: occurs_here_def last_char_def)
next
  case (Cons c cs)
  have here: "occurs_here q prev (c # cs) \<longleftrightarrow>
      (\<exists>post. c # cs = q @ post \<and> at_boundary prev (q @ post) \<and> at_boundary (last_char prev q) post)"
    unfolding occurs_here_def
    by (metis append_eq_conv_conj)
  have later: "occurs_from q (Some c) cs \<longleftrightarrow>
      (\<exists>pre post. c # cs = (c # pre) @ q @ post \<and> at_boundary (last_char prev (c # pre)) (q @ post)
          \<and> at_boundary (last_char (last_char prev (c # pre)) q) post)"
    unfolding Cons.IH by (simp add: last_char_def)
  show ?case
  proof
    assume "occurs_from q prev (c # cs)"
    then consider "occurs_here q prev (c # cs)" | "occurs_from q (Some c) cs" by auto
    then show "\<exists>pre post. c # cs = pre @ q @ post \<and> at_boundary (last_char prev pre) (q @ post)
        \<and> at_boundary (last_char (last_char prev pre) q) post"
    proof cases
      case 1
      then obtain post where "c # cs = [] @ q @ post" "at_boundary (last_char prev []) (q @ post)"
        "at_boundary (last_char (last_char prev []) q) post"
        using here by (auto simp add: last_char_def)
      then show ?thesis by blast
    next
      case 2
      then show ?thesis using later by blast
    qed
  next
    assume "\<exists>pre post. c # cs = pre @ q @ post \<and> at_boundary (last_char prev pre) (q @ post)
        \<and> at_boundary (last_char (last_char prev pre) q) post"
    then obtain pre post where *: "c # cs = pre @ q @ post" "at_boundary (last_char prev pre) (q @ post)"
        "at_boundary (last_char (last_char prev pre) q) post" by blast
    show "occurs_from q prev (c # cs)"
    proof (cases pre)
      case Nil
      then have "occurs_here q prev (c # cs)" using * here by (auto simp add: last_char_def)
      then show ?thesis by simp
    next
      case (Cons d pre')
      then have "d = c" using * by simp
      then have "occurs_from q (Some c) cs" using later * Cons by blast
      then show ?thesis by simp
    qed
  qed
qed

section \<open>The matcher on the script's phrases\<close>

lemmas spec_matcher_defs = spec_phrase_matches_def occurs_here_def last_char_def lower_def
  lower_char_def at_boundary_def word_before_def word_after_def is_word_def

lemma whats_up_pattern:
  "re_search (phrase_pattern ''whats up?'') (lower ''whats u'') = Returned True"
  by (simp add: matcher_defs)

lemma whats_up_literal: "\<not> spec_phrase_matches ''whats up?'' ''whats u''"
  by (simp add: spec_matcher_defs)

lemma oxycsbot_tags_whats_u:
  "get_tags oxycsbot_table ''whats u'' = Returned [PStr ''hello'' \<mapsto> 1]"
  unfolding oxycsbot_table_def get_tags_def by (simp add: matcher_defs count_of_def)

lemma oxycsbot_literal_whats_u:
  "filter (\<lambda>kv. spec_phrase_matches (fst kv) ''whats u'') oxycsbot_table = []"
  unfolding oxycsbot_table_def by (simp add: spec_matcher_defs)

lemma plus_pattern: "re_search (phrase_pattern ''a+b'') (lower ''a+b'') = Returned False"
  by (simp add: matcher_defs)

lemma plus_literal: "spec_phrase_matches ''a+b'' ''a+b''"
  by (simp add: spec_matcher_defs)

text \<open>The boundaries do their work: \<^verbatim>\<open>hi\<close> is not found inside \<^verbatim>\<open>this\<close>.\<close>

lemma hi_not_inside_this:
  "get_tags [(''hi'', tagv)] ''this'' = Returned Map.empty"
  by (simp add: get_tags_def matcher_defs)

text \<open>
  C5. The phrase is put into the pattern without \<^verbatim>\<open>re.escape\<close>. The script's phrase
  \<^verbatim>\<open>whats up?\<close> is read as \<^verbatim>\<open>whats u\<close> followed by an optional \<^verbatim>\<open>p\<close>: the message
  \<^verbatim>\<open>whats u\<close>, in which no phrase of the table occurs literally, is tagged
  \<^verbatim>\<open>hello\<close>. In the other direction a phrase \<^verbatim>\<open>a+b\<close> occurs literally in the message
  \<^verbatim>\<open>a+b\<close> and is not found there.
\<close>

theorem unescaped_phrase_read_as_pattern:
  "re_search (phrase_pattern ''whats up?'') (lower ''whats u'') = Returned True
   \<and> \<not> spec_phrase_matches ''whats up?'' ''whats u''
   \<and> get_tags oxycsbot_table ''whats u'' = Returned [PStr ''hello'' \<mapsto> 1]
   \<and> filter (\<lambda>kv. spec_phrase_matches (fst kv) ''whats u'') oxycsbot_table = []
   \<and> re_search (phrase_pattern ''a+b'') (lower ''a+b'') = Returned False
   \<and> spec_phrase_matches ''a+b'' ''a+b''"
  using whats_up_pattern whats_up_literal oxycsbot_tags_whats_u oxycsbot_literal_whats_u
    plus_pattern plus_literal
  by blast

lemma get_tags_loop_found:
  assumes "re_search (phrase_pattern p) msg = Returned True"
  shows "get_tags_loop msg cnt ((p, tagv) # rest)
           = (case counter_update cnt tagv of
                Returned cnt' \<Rightarrow> get_tags_loop msg cnt' rest
              | Raised e \<Rightarrow> Raised e
              | Unmodelled \<Rightarrow> Unmodelled)"
  using assms by simp

lemma get_tags_loop_found_single:
  assumes "re_search (phrase_pattern p) msg = Returned True"
  shows "get_tags_loop msg cnt [(p, tagv)] = counter_update cnt tagv"
  using assms by (simp split: outcome.splits)

text \<open>
  C6. When the phrase \<open>P\<close> with the tags \<^verbatim>\<open>[t1, t2]\<close> matches the message, its entry
  moves the loop from the counter \<open>cnt\<close> to a counter in which every key has gained
  as many counts as it has places in \<^verbatim>\<open>[t1, t2]\<close>: one for \<open>t1\<close> and one for \<open>t2\<close>
  when they differ, and nothing for any other key. A table that holds this entry
  alone gives each of the two tags the count 1.
\<close>

theorem matched_phrase_counts_each_tag_once:
  assumes "re_search (phrase_pattern P) (lower message) = Returned True"
  shows "\<exists>cnt'. counter_update cnt (PList [PStr t1, PStr t2]) = Returned cnt'
      \<and> get_tags_loop (lower message) cnt ((P, PList [PStr t1, PStr t2]) # rest)
          = get_tags_loop (lower message) cnt' rest
      \<and> (\<forall>k. count_of cnt' k = count_of cnt k + count_list [PStr t1, PStr t2] k)
      \<and> (t1 \<noteq> t2 \<longrightarrow> count_of cnt' (PStr t1) = count_of cnt (PStr t1) + 1
                    \<and> count_of cnt' (PStr t2) = count_of cnt (PStr t2) + 1)
      \<and> (\<forall>k. k \<noteq> PStr t1 \<and> k \<noteq> PStr t2 \<longrightarrow> cnt' k = cnt k)
      \<and> (t1 \<noteq> t2 \<longrightarrow> get_tags [(P, PList [PStr t1, PStr t2])] message
                       = Returned [PStr t1 \<mapsto> 1, PStr t2 \<mapsto> 1])"
proof -
  define c1 where "c1 = cnt(PStr t1 \<mapsto> count_of cnt (PStr t1) + 1)"
  define c2 where "c2 = c1(PStr t2 \<mapsto> count_of c1 (PStr t2) + 1)"
  have upd: "counter_update cnt (PList [PStr t1, PStr t2]) = Returned c2"
    by (simp add: c1_def c2_def)
  have loop: "get_tags_loop (lower message) cnt ((P, PList [PStr t1, PStr t2]) # rest)
          = get_tags_loop (lower message) c2 rest"
    using assms upd by (simp only: get_tags_loop_found outcome.case)
  have counts: "\<forall>k. count_of c2 k = count_of cnt k + count_list [PStr t1, PStr t2] k"
    by (simp add: c1_def c2_def count_of_def)
  have others: "\<forall>k. k \<noteq> PStr t1 \<and> k \<noteq> PStr t2 \<longrightarrow> c2 k = cnt k"
    by (simp add: c1_def c2_def)
  have single: "get_tags [(P, PList [PStr t1, PStr t2])] message
                       = Returned [PStr t1 \<mapsto> 1, PStr t2 \<mapsto> 1]" if "t1 \<noteq> t2"
    using assms that by (simp add: get_tags_def count_of_def)
  from counts have "t1 \<noteq> t2 \<longrightarrow> count_of c2 (PStr t1) = count_of cnt (PStr t1) + 1
                    \<and> count_of c2 (PStr t2) = count_of cnt (PStr t2) + 1"
    by simp
  with upd loop counts others single show ?thesis by blast
qed

theorem matched_phrase_counts_each_tag_once_witness:
  "get_tags [(''hello'', PList [PStr ''hello'', PStr ''greeting''])] ''Hello there''
     = Returned [PStr ''hello'' \<mapsto> 1, PStr ''greeting'' \<mapsto> 1]"
proof -
  have found: "re_search (phrase_pattern ''hello'') (lower ''Hello there'') = Returned True"
    by (simp add: matcher_defs)
  show ?thesis
    using matched_phrase_counts_each_tag_once [OF found, where ?t1.0 = "''hello''"
        and ?t2.0 = "''greeting''" and cnt = Map.empty and rest = "[]"]
    by auto
qed

lemma get_tags_loop_cong:
  assumes "\<forall>kv \<in> set tbl. re_search (phrase_pattern (fst kv)) msg1
                           = re_search (phrase_pattern (fst kv)) msg2"
  shows "get_tags_loop msg1 cnt tbl = get_tags_loop msg2 cnt tbl"
  using assms
proof (induction tbl arbitrary: cnt)
  case Nil
  then show ?case by simp
next
  case (Cons kv tbl)
  obtain p tagv where kv: "kv = (p, tagv)" by (cases kv)
  have same: "re_search (phrase_pattern p) msg1 = re_search (phrase_pattern p) msg2"
    using Cons.prems kv by simp
  have rest: "get_tags_loop msg1 c tbl = get_tags_loop msg2 c tbl" for c
    using Cons.IH Cons.prems by simp
  show ?case unfolding kv
    by (simp add: same rest split: outcome.splits)
qed

text \<open>
  C10. The entry of a phrase is applied once to a message that the phrase matches,
  however often the phrase occurs in it: two messages that the phrase matches get
  the same counts from its entry, which are those of one \<^verbatim>\<open>Counter.update\<close>; so does
  every message in which a phrase without special characters occurs literally at
  least once; and two messages that each phrase of a table treats alike get the same
  counts from the table.
\<close>

theorem one_update_per_matching_phrase:
  "(re_search (phrase_pattern p) (lower m1) = Returned True
      \<and> re_search (phrase_pattern p) (lower m2) = Returned True
     \<longrightarrow> get_tags_loop (lower m1) cnt [(p, tagv)] = counter_update cnt tagv
       \<and> get_tags_loop (lower m2) cnt [(p, tagv)] = counter_update cnt tagv
       \<and> get_tags [(p, tagv)] m1 = get_tags [(p, tagv)] m2)
   \<and> (list_all plain_char (lower p) \<and> list_all is_ascii (lower m1) \<and> spec_phrase_matches p m1
     \<longrightarrow> get_tags [(p, tagv)] m1 = counter_update Map.empty tagv)
   \<and> ((\<forall>kv \<in> set tbl. re_search (phrase_pattern (fst kv)) (lower m1)
                          = re_search (phrase_pattern (fst kv)) (lower m2))
     \<longrightarrow> get_tags tbl m1 = get_tags tbl m2)"
proof -
  have a: "get_tags_loop (lower m1) cnt [(p, tagv)] = counter_update cnt tagv
       \<and> get_tags_loop (lower m2) cnt [(p, tagv)] = counter_update cnt tagv
       \<and> get_tags [(p, tagv)] m1 = get_tags [(p, tagv)] m2"
    if "re_search (phrase_pattern p) (lower m1) = Returned True"
      and "re_search (phrase_pattern p) (lower m2) = Returned True"
    using that by (simp only: get_tags_loop_found_single get_tags_def simp_thms)
  have b: "get_tags [(p, tagv)] m1 = counter_update Map.empty tagv"
    if "list_all plain_char (lower p)" "list_all is_ascii (lower m1)" "spec_phrase_matches p m1"
  proof -
    have "re_search (phrase_pattern p) (lower m1) = Returned True"
      using that by (simp only: re_search_plain_phrase)
    then show ?thesis by (simp only: get_tags_loop_found_single get_tags_def)
  qed
  have c: "get_tags tbl m1 = get_tags tbl m2"
    if "\<forall>kv \<in> set tbl. re_search (phrase_pattern (fst kv)) (lower m1)
                          = re_search (phrase_pattern (fst kv)) (lower m2)"
    using that unfolding get_tags_def by (rule get_tags_loop_cong)
  from a b c show ?thesis by blast
qed

theorem one_update_per_matching_phrase_witness:
  "get_tags [(''hello'', PList [PStr ''hello''])] ''hello hello hello''
     = get_tags [(''hello'', PList [PStr ''hello''])] ''hello''
   \<and> get_tags [(''hello'', PList [PStr ''hello''])] ''hello hello hello'' = Returned [PStr ''hello'' \<mapsto> 1]
   \<and> get_tags oxycsbot_table ''hello hello hello'' = get_tags oxycsbot_table ''hello''"
proof -
  have once: "re_search (phrase_pattern ''hello'') (lower ''hello'') = Returned True"
    and thrice: "re_search (phrase_pattern ''hello'') (lower ''hello hello hello'') = Returned True"
    by (simp_all add: matcher_defs)
  have plain: "list_all plain_char (lower ''hello'')" "list_all is_ascii (lower ''hello hello hello'')"
    by (simp_all add: plain_char_def matcher_defs)
  have literal: "spec_phrase_matches ''hello'' ''hello hello hello''"
    by (simp add: spec_matcher_defs)
  have table: "\<forall>kv \<in> set oxycsbot_table. re_search (phrase_pattern (fst kv)) (lower ''hello hello hello'')
                          = re_search (phrase_pattern (fst kv)) (lower ''hello'')"
    unfolding oxycsbot_table_def by (simp add: matcher_defs)
  show ?thesis
    using one_update_per_matching_phrase [where p = "''hello''" and ?m1.0 = "''hello hello hello''"
        and ?m2.0 = "''hello''" and cnt = Map.empty and tagv = "PList [PStr ''hello'']"
        and tbl = oxycsbot_table] once thrice plain literal table
    by (auto simp add: count_of_def)
qed

section \<open>Construction: \<^verbatim>\<open>_check_tags\<close> and \<^verbatim>\<open>__init__\<close>\<close>

text \<open>
  The loop of \<^verbatim>\<open>_check_tags\<close> stores into the dictionary under a key that is already
  there, so it rewrites the entry in its place.
\<close>

lemma map_of_in_place:
  "k \<notin> fst ` set pre \<Longrightarrow> map_of (pre @ (k, w) # post) k = Some w"
  by (induction pre) auto

lemma update_in_place:
  "k \<notin> fst ` set pre \<Longrightarrow> AList.update k v (pre @ (k, w) # post) = pre @ (k, v) # post"
  by (induction pre) auto

lemma accepted_normalized: "accepted v \<Longrightarrow> is_tuple_or_list (snd (normalize_entry (k, v)))"
  by (cases v) (simp_all add: accepted_def normalize_entry_def)

lemma check_tags_step_accepted:
  assumes "k \<notin> fst ` set pre" and "accepted v"
  shows "check_tags_loop (k # ks) (pre @ (k, v) # post)
           = check_tags_loop ks (pre @ normalize_entry (k, v) # post)"
proof (cases "is_str v")
  case True
  then show ?thesis using assms(1)
    by (simp del: map_of_append add: map_of_in_place update_in_place normalize_entry_def)
next
  case False
  then have "is_tuple_or_list v" using assms(2) by (simp add: accepted_def)
  then show ?thesis using assms(1) False
    by (simp del: map_of_append add: map_of_in_place normalize_entry_def)
qed

lemma check_tags_step_rejected:
  assumes "k \<notin> fst ` set pre" and "\<not> accepted v"
  shows "check_tags_loop (k # ks) (pre @ (k, v) # post) = (pre @ (k, v) # post, Some (tags_error v))"
  using assms by (simp del: map_of_append add: map_of_in_place accepted_def)

lemma check_tags_loop_accepted:
  assumes "distinct (map fst (pre @ post))" and "list_all (\<lambda>kv. accepted (snd kv)) post"
  shows "check_tags_loop (map fst post) (pre @ post) = (pre @ map normalize_entry post, None)"
  using assms
proof (induction post arbitrary: pre)
  case Nil
  then show ?case by simp
next
  case (Cons kv post)
  obtain k v where kv: "kv = (k, v)" by (cases kv)
  have fresh: "k \<notin> fst ` set pre" and ok: "accepted v"
    using Cons.prems kv by auto
  have "distinct (map fst ((pre @ [normalize_entry (k, v)]) @ post))"
    using Cons.prems(1) kv by (simp add: normalize_entry_def)
  moreover have "list_all (\<lambda>kv. accepted (snd kv)) post"
    using Cons.prems(2) by simp
  ultimately have "check_tags_loop (map fst post) ((pre @ [normalize_entry (k, v)]) @ post)
      = ((pre @ [normalize_entry (k, v)]) @ map normalize_entry post, None)"
    by (rule Cons.IH)
  then show ?case
    using check_tags_step_accepted [OF fresh ok, of "map fst post" post] kv by simp
qed

lemma check_tags_loop_rejected:
  assumes "distinct (map fst (pre @ post))" and "\<not> list_all (\<lambda>kv. accepted (snd kv)) post"
  shows "\<exists>tbl' v. check_tags_loop (map fst post) (pre @ post) = (tbl', Some (tags_error v))
           \<and> v \<in> snd ` set post \<and> \<not> accepted v"
  using assms
proof (induction post arbitrary: pre)
  case Nil
  then show ?case by simp
next
  case (Cons kv post)
  obtain k v where kv: "kv = (k, v)" by (cases kv)
  have fresh: "k \<notin> fst ` set pre"
    using Cons.prems(1) kv by auto
  show ?case
  proof (cases "accepted v")
    case False
    then show ?thesis
      using check_tags_step_rejected [OF fresh False, of "map fst post" post] kv by force
  next
    case True
    have "distinct (map fst ((pre @ [normalize_entry (k, v)]) @ post))"
      using Cons.prems(1) kv by (simp add: normalize_entry_def)
    moreover have "\<not> list_all (\<lambda>kv. accepted (snd kv)) post"
      using Cons.prems(2) kv True by simp
    ultimately obtain tbl' w where
      "check_tags_loop (map fst post) ((pre @ [normalize_entry (k, v)]) @ post) = (tbl', Some (tags_error w))"
      "w \<in> snd ` set post" "\<not> accepted w"
      using Cons.IH by blast
    then show ?thesis
      using check_tags_step_accepted [OF fresh True, of "map fst post" post] kv by force
  qed
qed

lemma check_tags_accepted:
  assumes "distinct (map fst tbl)" and "list_all (\<lambda>kv. accepted (snd kv)) tbl"
  shows "check_tags tbl = (map normalize_entry tbl, None)"
  using check_tags_loop_accepted [of "[]" tbl] assms by (simp add: check_tags_def)

lemma check_tags_rejected:
  assumes "distinct (map fst tbl)" and "\<not> list_all (\<lambda>kv. accepted (snd kv)) tbl"
  shows "\<exists>tbl' v. check_tags tbl = (tbl', Some (tags_error v)) \<and> v \<in> snd ` set tbl \<and> \<not> accepted v"
  using check_tags_loop_rejected [of "[]" tbl] assms by (simp add: check_tags_def)

lemma normalized_all_sequences:
  "list_all (\<lambda>kv. accepted (snd kv)) tbl \<Longrightarrow>
     list_all (\<lambda>kv. is_tuple_or_list (snd kv)) (map normalize_entry tbl)"
  by (induction tbl) (auto simp add: accepted_normalized)









text \<open>
  When the state list is not empty and the default state is not in it, construction
  prints first the warning that suggests the first declared state, then the warnings
  of \<^verbatim>\<open>_check_states\<close>. It then returns the engine, in the undeclared default state,
  when every value of the tag table is a \<^verbatim>\<open>str\<close>, a \<^verbatim>\<open>list\<close> or a \<^verbatim>\<open>tuple\<close>, and
  fails with the \<^verbatim>\<open>AssertionError\<close> of \<^verbatim>\<open>_check_tags\<close> otherwise.
\<close>

lemma init_warns_and_proceeds:
  assumes "d \<notin> set (first # others)"
    and "distinct (map fst tbl)"
  shows "(list_all (\<lambda>kv. accepted (snd kv)) tbl \<longrightarrow>
            init attrs (first # others) tbl d
              = (Returned \<lparr>STATES = first # others, TAGS = map normalize_entry tbl,
                            default_state = d, state = d, tags = []\<rparr>,
                 default_state_warning d first # check_states attrs (first # others) d))
       \<and> (\<not> list_all (\<lambda>kv. accepted (snd kv)) tbl \<longrightarrow>
            (\<exists>v. init attrs (first # others) tbl d
                   = (Raised (tags_error v),
                      default_state_warning d first # check_states attrs (first # others) d)
                 \<and> \<not> accepted v))"
proof -
  have "init attrs (first # others) tbl d
              = (Returned \<lparr>STATES = first # others, TAGS = map normalize_entry tbl,
                            default_state = d, state = d, tags = []\<rparr>,
                 default_state_warning d first # check_states attrs (first # others) d)"
    if "list_all (\<lambda>kv. accepted (snd kv)) tbl"
    using assms(1) check_tags_accepted [OF assms(2) that]
    by (simp add: init_def init_warning_def)
  moreover have "\<exists>v. init attrs (first # others) tbl d
                   = (Raised (tags_error v),
                      default_state_warning d first # check_states attrs (first # others) d)
                 \<and> \<not> accepted v"
    if rejected: "\<not> list_all (\<lambda>kv. accepted (snd kv)) tbl"
  proof -
    obtain tbl' v where "check_tags tbl = (tbl', Some (tags_error v))" "\<not> accepted v"
      using check_tags_rejected [OF assms(2) rejected] by blast
    then show ?thesis using assms(1) by (auto simp add: init_def init_warning_def)
  qed
  ultimately show ?thesis by blast
qed

text \<open>The script with the undeclared default state \<^verbatim>\<open>idle\<close>.\<close>

lemma oxycsbot_undeclared_default:
  "init oxycsbot_attrs oxycsbot_STATES oxycsbot_TAGS ''idle''
     = (Returned \<lparr>STATES = oxycsbot_STATES, TAGS = map normalize_entry oxycsbot_TAGS,
                   default_state = ''idle'', state = ''idle'', tags = []\<rparr>,
        default_state_warning ''idle'' ''waiting'' # check_states oxycsbot_attrs oxycsbot_STATES ''idle'')"
proof -
  have keys: "distinct (map fst oxycsbot_TAGS)" by code_simp
  have vals: "list_all (\<lambda>kv. accepted (snd kv)) oxycsbot_TAGS" by code_simp
  have sts: "oxycsbot_STATES = ''waiting'' # tl oxycsbot_STATES" "''idle'' \<notin> set oxycsbot_STATES"
    by (simp_all add: oxycsbot_STATES_def)
  show ?thesis
    using init_warns_and_proceeds [where d = "''idle''" and first = "''waiting''"
        and others = "tl oxycsbot_STATES" and tbl = oxycsbot_TAGS and attrs = oxycsbot_attrs,
        OF _ keys] vals sts
    by simp
qed

text \<open>
  C8. The warning is built with \<^verbatim>\<open>self.STATES[0]\<close>. On a class that declares no
  state, which is what \<^verbatim>\<open>ChatBot\<close> itself declares, no default state is in the list,
  and construction raises \<^verbatim>\<open>IndexError\<close> there: no warning is printed and no
  engine is built, whatever the default state, the hooks and the tag table are.
\<close>

theorem empty_state_list_raises_index_error:
  "d \<notin> set [] \<and> init attrs [] tbl d = (Raised IndexError, [])"
  by (simp add: init_def init_warning_def)

end
